theory Spec2Isabelle
  imports Main
begin

section \<open>Data model of example-dapp/src/App.tsx\<close>

text \<open>
  App.tsx of the example dapp: the handlers of \<open>StatelessApp\<close>, one per use case, the log
  they write to, and the \<open>autoSignIn\<close> callback of \<open>App\<close>.  The source holds two
  revisions of the file; the later one, with the transaction use cases, is followed here,
  and the handlers that both revisions have are the same in both.  The helpers of ./utils,
  the wallet adapter and the connection are outside the file: a handler's calls to them
  are recorded, and their outcomes are parameters.
\<close>

text \<open>
  The log entry type \<open>TLog\<close> (imported from ./types): a status, the name of the
  method that produced the entry, and a message text.
\<close>

datatype status = Info | Success | Warning | Error

record TLog =
  status :: status
  "method" :: string
  message :: string

text \<open>
  Opaque JavaScript values (transactions, signatures, blockhashes, addresses, byte
  arrays, the sign-in input) are represented by strings.  The output of a sign-in
  is the object \<open>{account, signedMessage, signature}\<close>; of \<open>account\<close> only
  \<open>account.address\<close> is read.
\<close>

record SolanaSignInOutput =
  account_address :: string
  signedMessage :: string
  signature :: string

text \<open>
  The arguments that are passed to \<open>pollSignatureStatus\<close>.  Every call site of
  App.tsx passes \<open>(signature, connection, createLog)\<close>.
\<close>

datatype argument =
    ArgSignature string
  | ArgConnection
  | ArgCreateLog
  | ArgCancelSignal string

text \<open>
  The calls a handler makes to code outside App.tsx: the helpers of ./utils (which
  wrap the wallet capabilities \<open>signMsg\<close>, \<open>siws\<close>, \<open>signTx\<close>, \<open>signAllTx\<close>,
  \<open>sendTx\<close>), the connection, and the wallet's connect and disconnect.  Each call
  is recorded with the arguments that vary.
\<close>

datatype call =
    CreateTransferTransaction string
  | CreateTransferTransactionV0 string
  | GetLatestBlockhash
  | CreateAddressLookupTable string string
  | ExtendAddressLookupTable string string string
  | SignAndSendTransaction string
  | SignAndSendTransactionV0WithLookupTable string string string
  | SignTransaction string
  | SignAllTransactions string string
  | SignMessage string
  | CreateSignInData
  | CreateSignInErrorData
  | SignIn string
  | Connect
  | Disconnect
  | PollSignatureStatus "argument list"
  | AdapterSignIn string
  | VerifySignIn string SolanaSignInOutput

text \<open>
  What a handler does that is visible from outside, in order: an entry handed to
  \<open>createLog\<close>, a call, and the rejection of the call just made, with the message
  of its error.
\<close>

datatype event = Logged TLog | Called call | Rejected string

text \<open>
  The surroundings of one invocation: the values of \<open>useWallet()\<close> and the outcome
  of every call, \<open>Inl\<close> carrying the message of the error thrown (the \<open>error.message\<close>
  that the catch blocks read) and \<open>Inr\<close> the value returned.  A helper that is called
  several times in one invocation (\<open>createTransferTransaction\<close>,
  \<open>connection.getLatestBlockhash\<close>) takes the number of the call.
  \<open>stringify\<close>, \<open>stringifyAll\<close> and \<open>decode\<close> stand for \<open>JSON.stringify\<close> on one value,
  \<open>JSON.stringify\<close> on an array, and \<open>new TextDecoder().decode\<close>, taken as total.
\<close>

record world =
  publicKey :: "string option"
  wallet :: "string option"
  createTransferTransaction :: "string \<Rightarrow> nat \<Rightarrow> string + string"
  createTransferTransactionV0 :: "string \<Rightarrow> string + string"
  getLatestBlockhash :: "nat \<Rightarrow> string + string"
  createAddressLookupTable :: "string \<Rightarrow> string \<Rightarrow> string + (string \<times> string)"
  extendAddressLookupTable :: "string \<Rightarrow> string \<Rightarrow> string \<Rightarrow> string + string"
  signAndSendTransaction :: "string \<Rightarrow> string + string"
  signAndSendTransactionV0WithLookupTable :: "string \<Rightarrow> string \<Rightarrow> string \<Rightarrow> string + string"
  signTransaction :: "string \<Rightarrow> string + string"
  signAllTransactions :: "string \<Rightarrow> string \<Rightarrow> string + string list"
  signMessage :: "string \<Rightarrow> string + string"
  createSignInData :: "string + string"
  createSignInErrorData :: "string + string"
  signIn :: "string \<Rightarrow> string + SolanaSignInOutput"
  connect :: "string + unit"
  disconnect :: "string + unit"
  verifySignIn :: "string \<Rightarrow> SolanaSignInOutput \<Rightarrow> string + bool"
  stringify :: "string \<Rightarrow> string"
  stringifyAll :: "string list \<Rightarrow> string"
  decode :: "string \<Rightarrow> string"

section \<open>The log\<close>

text \<open>
  \<open>createLog = (log) => setLogs((logs) => [...logs, log])\<close>: the update that is
  applied to the current log.
\<close>

definition createLog :: "TLog \<Rightarrow> TLog list \<Rightarrow> TLog list" where
  "createLog log logs = logs @ [log]"

text \<open>\<open>clearLogs = () => setLogs([])\<close>.\<close>

definition clearLogs :: "TLog list \<Rightarrow> TLog list" where
  "clearLogs logs = []"

text \<open>The log after the events of an invocation: each logged entry goes through \<open>createLog\<close>.\<close>

fun commit :: "event list \<Rightarrow> TLog list \<Rightarrow> TLog list" where
  "commit [] logs = logs"
| "commit (Logged log # es) logs = commit es (createLog log logs)"
| "commit (Called c # es) logs = commit es logs"
| "commit (Rejected e # es) logs = commit es logs"

fun entries :: "event list \<Rightarrow> TLog list" where
  "entries [] = []"
| "entries (Logged log # es) = log # entries es"
| "entries (Called c # es) = entries es"
| "entries (Rejected e # es) = entries es"

fun calls :: "event list \<Rightarrow> call list" where
  "calls [] = []"
| "calls (Logged log # es) = calls es"
| "calls (Called c # es) = c # calls es"
| "calls (Rejected e # es) = calls es"

section \<open>Asynchronous functions\<close>

text \<open>
  An invocation of an \<open>async\<close> function yields its outcome (\<open>Inl\<close>: the promise is
  rejected with an error of that message; \<open>Inr\<close>: it is fulfilled with that value) and
  the events it produced, in order.
\<close>

type_synonym 'a promise = "(string + 'a) \<times> event list"

definition return :: "'a \<Rightarrow> 'a promise" where
  "return x = (Inr x, [])"

definition throw :: "string \<Rightarrow> 'a promise" where
  "throw e = (Inl e, [])"

text \<open>\<open>const x = await m; f x\<close>: an error of \<open>m\<close> ends the sequence.\<close>

definition await :: "'a promise \<Rightarrow> ('a \<Rightarrow> 'b promise) \<Rightarrow> 'b promise" where
  "await m f = (case m of
      (Inl e, h) \<Rightarrow> (Inl e, h)
    | (Inr x, h) \<Rightarrow> (case f x of (r, h') \<Rightarrow> (r, h @ h')))"

text \<open>\<open>try { m } catch (error) { c error }\<close>.\<close>

definition try_catch :: "'a promise \<Rightarrow> (string \<Rightarrow> 'a promise) \<Rightarrow> 'a promise" where
  "try_catch m c = (case m of
      (Inl e, h) \<Rightarrow> (case c e of (r, h') \<Rightarrow> (r, h @ h'))
    | (Inr x, h) \<Rightarrow> (Inr x, h))"

text \<open>A call to the outside with its outcome.\<close>

definition invoke :: "call \<Rightarrow> string + 'a \<Rightarrow> 'a promise" where
  "invoke c outcome =
     (case outcome of
        Inl e \<Rightarrow> (Inl e, [Called c, Rejected e])
      | Inr x \<Rightarrow> (Inr x, [Called c]))"

text \<open>\<open>createLog({status, method, message})\<close> inside a handler.\<close>

definition createLog_call :: "status \<Rightarrow> string \<Rightarrow> string \<Rightarrow> unit promise" where
  "createLog_call s m msg = (Inr (), [Logged \<lparr>status = s, method = m, message = msg\<rparr>])"

text \<open>
  \<open>pollSignatureStatus(signature, connection, createLog);\<close>: the call is not awaited and
  its result is dropped; the handler goes on at once.  The poller is an asynchronous
  helper of ./utils: starting it does not throw, and what it does later (its progress
  entries, its own failures) is not among the events of the handler.
\<close>

definition pollSignatureStatus :: "string \<Rightarrow> unit promise" where
  "pollSignatureStatus sig =
     (Inr (), [Called (PollSignatureStatus [ArgSignature sig, ArgConnection, ArgCreateLog])])"

text \<open>
  \<open>!publicKey || !wallet\<close>.  Past this guard a handler reads \<open>publicKey\<close> as
  \<open>the (publicKey w)\<close>.
\<close>

definition notConnected :: "world \<Rightarrow> bool" where
  "notConnected w = (publicKey w = None \<or> wallet w = None)"

section \<open>The handlers of StatelessApp\<close>

text \<open>The constant \<open>message\<close> of the module.\<close>

definition message_const :: string where
  "message_const = ''To avoid digital dognappers, sign below to authenticate with CryptoCorgis.''"

text \<open>The template literals of the log messages.\<close>

definition requestingSignature :: "string \<Rightarrow> string" where
  "requestingSignature json = ''Requesting signature for: '' @ json"

definition submittedTransaction :: "string \<Rightarrow> string" where
  "submittedTransaction sig = ''Signed and submitted transaction '' @ sig @ ''.''"

definition submittedTransactionV0 :: "string \<Rightarrow> string" where
  "submittedTransactionV0 sig = ''Signed and submitted transactionV0 '' @ sig @ ''.''"

definition lookupTableCreated :: "string \<Rightarrow> string \<Rightarrow> string" where
  "lookupTableCreated lookupTableAddress lookupSignature =
     ''Signed and submitted transactionV0 to make an Address Lookup Table ''
     @ lookupTableAddress @ '' with signature: '' @ lookupSignature
     @ ''. Please wait for 5-7 seconds after signing the next transaction to be able to see the next transaction popup. This time is needed as newly appended addresses require one slot to warmup before being available to transactions for lookups.''"

definition lookupTableExtended :: "string \<Rightarrow> string" where
  "lookupTableExtended extensionSignature =
     ''Signed and submitted transactionV0 to extend Address Lookup Table ''
     @ extensionSignature @ ''.''"

definition lookupTableUsed :: "string \<Rightarrow> string" where
  "lookupTableUsed sig =
     ''Signed and submitted transactionV0 with Address Lookup Table '' @ sig @ ''.''"

definition transactionSigned :: "string \<Rightarrow> string" where
  "transactionSigned json = ''Transaction signed: '' @ json"

definition transactionsSigned :: "string \<Rightarrow> string" where
  "transactionsSigned json = ''Transactions signed: '' @ json"

definition messageSigned :: "string \<Rightarrow> string" where
  "messageSigned json = ''Message signed: '' @ json"

definition messageSignedBy :: "string \<Rightarrow> string \<Rightarrow> string \<Rightarrow> string" where
  "messageSignedBy text address sig =
     ''Message signed: '' @ text @ '' by '' @ address @ '' with signature '' @ sig"

text \<open>The message of the disconnect entry is the waving-hand sign, here as its UTF-8 bytes.\<close>

definition wavingHand :: string where
  "wavingHand = [CHR 0xF0, CHR 0x9F, CHR 0x91, CHR 0x8B]"

definition handleSignAndSendTransaction :: "world \<Rightarrow> unit promise" where
  "handleSignAndSendTransaction w =
    (if notConnected w then return ()
     else try_catch
       (await (invoke (CreateTransferTransaction (the (publicKey w)))
                 (createTransferTransaction w (the (publicKey w)) 0)) (\<lambda>transaction.
        await (createLog_call Info ''signAndSendTransaction''
                 (requestingSignature (stringify w transaction))) (\<lambda>_.
        await (invoke (SignAndSendTransaction transaction)
                 (signAndSendTransaction w transaction)) (\<lambda>signature.
        await (createLog_call Info ''signAndSendTransaction''
                 (submittedTransaction signature)) (\<lambda>_.
        pollSignatureStatus signature)))))
       (\<lambda>error. createLog_call Error ''signAndSendTransaction'' error))"

definition handleSignAndSendTransactionV0 :: "world \<Rightarrow> unit promise" where
  "handleSignAndSendTransactionV0 w =
    (if notConnected w then return ()
     else try_catch
       (await (invoke (CreateTransferTransactionV0 (the (publicKey w)))
                 (createTransferTransactionV0 w (the (publicKey w)))) (\<lambda>transactionV0.
        await (createLog_call Info ''signAndSendTransactionV0''
                 (requestingSignature (stringify w transactionV0))) (\<lambda>_.
        await (invoke (SignAndSendTransaction transactionV0)
                 (signAndSendTransaction w transactionV0)) (\<lambda>signature.
        await (createLog_call Info ''signAndSendTransactionV0''
                 (submittedTransactionV0 signature)) (\<lambda>_.
        pollSignatureStatus signature)))))
       (\<lambda>error. createLog_call Error ''signAndSendTransactionV0'' error))"

text \<open>
  The arguments of a call are evaluated before it: each
  \<open>await connection.getLatestBlockhash().then((res) => res.blockhash)\<close> comes before the
  helper that receives the blockhash.
\<close>

definition handleSignAndSendTransactionV0WithLookupTable :: "world \<Rightarrow> unit promise" where
  "handleSignAndSendTransactionV0WithLookupTable w =
    (if notConnected w then return ()
     else try_catch
       (await (invoke GetLatestBlockhash (getLatestBlockhash w 0)) (\<lambda>blockhash0.
        await (invoke (CreateAddressLookupTable (the (publicKey w)) blockhash0)
                 (createAddressLookupTable w (the (publicKey w)) blockhash0))
          (\<lambda>(lookupSignature, lookupTableAddress).
        await (createLog_call Info ''signAndSendTransactionV0WithLookupTable''
                 (lookupTableCreated lookupTableAddress lookupSignature))
          (\<lambda>_.
        await (pollSignatureStatus lookupSignature) (\<lambda>_.
        await (invoke GetLatestBlockhash (getLatestBlockhash w 1)) (\<lambda>blockhash1.
        await (invoke (ExtendAddressLookupTable (the (publicKey w)) blockhash1 lookupTableAddress)
                 (extendAddressLookupTable w (the (publicKey w)) blockhash1 lookupTableAddress))
          (\<lambda>extensionSignature.
        await (createLog_call Info ''signAndSendTransactionV0WithLookupTable''
                 (lookupTableExtended extensionSignature)) (\<lambda>_.
        await (pollSignatureStatus extensionSignature) (\<lambda>_.
        await (invoke GetLatestBlockhash (getLatestBlockhash w 2)) (\<lambda>blockhash2.
        await (invoke (SignAndSendTransactionV0WithLookupTable (the (publicKey w)) blockhash2
                         lookupTableAddress)
                 (signAndSendTransactionV0WithLookupTable w (the (publicKey w)) blockhash2
                    lookupTableAddress)) (\<lambda>signature.
        await (createLog_call Info ''signAndSendTransactionV0WithLookupTable''
                 (lookupTableUsed signature)) (\<lambda>_.
        pollSignatureStatus signature))))))))))))
       (\<lambda>error. createLog_call Error ''signAndSendTransactionV0WithLookupTable'' error))"

definition handleSignTransaction :: "world \<Rightarrow> unit promise" where
  "handleSignTransaction w =
    (if notConnected w then return ()
     else try_catch
       (await (invoke (CreateTransferTransaction (the (publicKey w)))
                 (createTransferTransaction w (the (publicKey w)) 0)) (\<lambda>transaction.
        await (createLog_call Info ''signTransaction''
                 (requestingSignature (stringify w transaction))) (\<lambda>_.
        await (invoke (SignTransaction transaction) (signTransaction w transaction))
          (\<lambda>signedTransaction.
        createLog_call Success ''signTransaction''
          (transactionSigned (stringify w signedTransaction))))))
       (\<lambda>error. createLog_call Error ''signTransaction'' error))"

definition handleSignAllTransactions :: "world \<Rightarrow> unit promise" where
  "handleSignAllTransactions w =
    (if notConnected w then return ()
     else try_catch
       (await (invoke (CreateTransferTransaction (the (publicKey w)))
                 (createTransferTransaction w (the (publicKey w)) 0)) (\<lambda>transaction0.
        await (invoke (CreateTransferTransaction (the (publicKey w)))
                 (createTransferTransaction w (the (publicKey w)) 1)) (\<lambda>transaction1.
        await (createLog_call Info ''signAllTransactions''
                 (requestingSignature (stringifyAll w [transaction0, transaction1])))
          (\<lambda>_.
        await (invoke (SignAllTransactions transaction0 transaction1)
                 (signAllTransactions w transaction0 transaction1)) (\<lambda>signedTransactions.
        createLog_call Success ''signAllTransactions''
          (transactionsSigned (stringifyAll w signedTransactions)))))))
       (\<lambda>error. createLog_call Error ''signAllTransactions'' error))"

text \<open>
  \<open>handleSignMessage\<close> returns the signed message when signing succeeds and
  \<open>undefined\<close> (\<open>None\<close>) otherwise.
\<close>

definition handleSignMessage :: "world \<Rightarrow> string option promise" where
  "handleSignMessage w =
    (if notConnected w then return None
     else try_catch
       (await (invoke (SignMessage message_const) (signMessage w message_const))
          (\<lambda>signedMessage.
        await (createLog_call Success ''signMessage''
                 (messageSigned (stringify w signedMessage))) (\<lambda>_.
        return (Some signedMessage))))
       (\<lambda>error. await (createLog_call Error ''signMessage'' error) (\<lambda>_. return None)))"

text \<open>In the two sign-in handlers the sign-in data is created before the \<open>try\<close> block.\<close>

definition handleSignIn :: "world \<Rightarrow> unit promise" where
  "handleSignIn w =
    (if notConnected w then return ()
     else await (invoke CreateSignInData (createSignInData w)) (\<lambda>signInData.
       try_catch
         (await (invoke (SignIn signInData) (signIn w signInData)) (\<lambda>out.
          createLog_call Success ''signIn''
            (messageSignedBy (decode w (signedMessage out)) (account_address out)
               (signature out))))
         (\<lambda>error. createLog_call Error ''signIn'' error)))"

definition handleSignInError :: "world \<Rightarrow> unit promise" where
  "handleSignInError w =
    (if notConnected w then return ()
     else await (invoke CreateSignInErrorData (createSignInErrorData w)) (\<lambda>signInData.
       try_catch
         (await (invoke (SignIn signInData) (signIn w signInData)) (\<lambda>out.
          createLog_call Success ''signMessage''
            (messageSignedBy (stringify w (signedMessage out)) (account_address out)
               (signature out))))
         (\<lambda>error. createLog_call Error ''signIn'' error)))"

definition handleConnect :: "world \<Rightarrow> unit promise" where
  "handleConnect w =
    (if notConnected w then return ()
     else try_catch
       (invoke Connect (connect w))
       (\<lambda>error. createLog_call Error ''connect'' error))"

definition handleDisconnect :: "world \<Rightarrow> unit promise" where
  "handleDisconnect w =
    (if notConnected w then return ()
     else try_catch
       (await (invoke Disconnect (disconnect w)) (\<lambda>_.
        createLog_call Warning ''disconnect'' wavingHand))
       (\<lambda>error. createLog_call Error ''disconnect'' error))"

text \<open>The entries of \<open>connectedMethods\<close>, and \<open>connect\<close>, which is handed to the sidebar.\<close>

datatype usecase =
    SignAndSendTransactionLegacy
  | SignAndSendTransactionV0
  | SignAndSendTransactionV0LookupTable
  | SignTransactionOnly
  | SignAllTransactionsBatch
  | SignMessageText
  | SignInOk
  | SignInError
  | DisconnectWallet
  | ConnectWallet

definition dropValue :: "unit promise \<Rightarrow> string option promise" where
  "dropValue p = (map_sum id (\<lambda>_. None) (fst p), snd p)"

fun onClick :: "usecase \<Rightarrow> world \<Rightarrow> string option promise" where
  "onClick SignAndSendTransactionLegacy w = dropValue (handleSignAndSendTransaction w)"
| "onClick SignAndSendTransactionV0 w = dropValue (handleSignAndSendTransactionV0 w)"
| "onClick SignAndSendTransactionV0LookupTable w =
     dropValue (handleSignAndSendTransactionV0WithLookupTable w)"
| "onClick SignTransactionOnly w = dropValue (handleSignTransaction w)"
| "onClick SignAllTransactionsBatch w = dropValue (handleSignAllTransactions w)"
| "onClick SignMessageText w = handleSignMessage w"
| "onClick SignInOk w = dropValue (handleSignIn w)"
| "onClick SignInError w = dropValue (handleSignInError w)"
| "onClick DisconnectWallet w = dropValue (handleDisconnect w)"
| "onClick ConnectWallet w = dropValue (handleConnect w)"

text \<open>The \<open>method\<close> under which a use case logs: the name of its handler without \<open>handle\<close>.\<close>

fun methodName :: "usecase \<Rightarrow> string" where
  "methodName SignAndSendTransactionLegacy = ''signAndSendTransaction''"
| "methodName SignAndSendTransactionV0 = ''signAndSendTransactionV0''"
| "methodName SignAndSendTransactionV0LookupTable = ''signAndSendTransactionV0WithLookupTable''"
| "methodName SignTransactionOnly = ''signTransaction''"
| "methodName SignAllTransactionsBatch = ''signAllTransactions''"
| "methodName SignMessageText = ''signMessage''"
| "methodName SignInOk = ''signIn''"
| "methodName SignInError = ''signInError''"
| "methodName DisconnectWallet = ''disconnect''"
| "methodName ConnectWallet = ''connect''"

section \<open>The auto-connect callback of App\<close>

text \<open>
  Of the adapter only the \<open>signIn\<close> property is used: \<open>None\<close> when
  \<open>'signIn' in adapter\<close> is false.  The adapter is an object of the wallet with a state of
  its own, of which the account it holds (\<open>adapter.publicKey\<close>, \<open>None\<close> for null) is kept
  here: a call of \<open>adapter.signIn(input)\<close> is given the account that the adapter holds and
  yields, with its outcome, the account that the adapter holds afterwards.
\<close>

type_synonym account = "string option"

record adapter =
  adapter_signIn :: "(account \<Rightarrow> string \<Rightarrow> (string + SolanaSignInOutput) \<times> account) option"

text \<open>
  A stretch of the callback: the account of the adapter goes in; the promise and the
  account of the adapter afterwards come out.  \<open>keep\<close> is code that does not touch the
  adapter, \<open>adapterCall\<close> a call of one of its methods, and \<open>awaitStep\<close> is \<open>await\<close> with
  the account passed on.
\<close>

type_synonym 'a step = "account \<Rightarrow> 'a promise \<times> account"

definition keep :: "'a promise \<Rightarrow> 'a step" where
  "keep p acct = (p, acct)"

definition adapterCall :: "call \<Rightarrow> (account \<Rightarrow> (string + 'a) \<times> account) \<Rightarrow> 'a step" where
  "adapterCall c m acct = (case m acct of (outcome, acct') \<Rightarrow> (invoke c outcome, acct'))"

definition awaitStep :: "'a step \<Rightarrow> ('a \<Rightarrow> 'b step) \<Rightarrow> 'b step" where
  "awaitStep m f acct =
     (case m acct of
        ((Inl e, h), acct') \<Rightarrow> ((Inl e, h), acct')
      | ((Inr x, h), acct') \<Rightarrow>
          (case f x acct' of ((r, h'), acct'') \<Rightarrow> ((r, h @ h'), acct'')))"

definition autoSignIn :: "world \<Rightarrow> adapter \<Rightarrow> bool step" where
  "autoSignIn w a =
    (case adapter_signIn a of
       None \<Rightarrow> keep (return True)
     | Some adapterSignIn \<Rightarrow>
        awaitStep (keep (invoke CreateSignInData (createSignInData w))) (\<lambda>input.
        awaitStep (adapterCall (AdapterSignIn input) (\<lambda>acct. adapterSignIn acct input))
          (\<lambda>output.
        awaitStep (keep (invoke (VerifySignIn input output) (verifySignIn w input output)))
          (\<lambda>ok.
        keep (if \<not> ok then throw ''Sign In verification failed!'' else return False)))))"

section \<open>Reading a history\<close>

text \<open>The calls that reach the external signer (the wallet), through the helpers of ./utils.\<close>

fun isDispatch :: "call \<Rightarrow> bool" where
  "isDispatch (CreateAddressLookupTable pk bh) = True"
| "isDispatch (ExtendAddressLookupTable pk bh a) = True"
| "isDispatch (SignAndSendTransaction tx) = True"
| "isDispatch (SignAndSendTransactionV0WithLookupTable pk bh a) = True"
| "isDispatch (SignTransaction tx) = True"
| "isDispatch (SignAllTransactions tx1 tx2) = True"
| "isDispatch (SignMessage m) = True"
| "isDispatch (SignIn i) = True"
| "isDispatch (AdapterSignIn i) = True"
| "isDispatch c = False"

text \<open>The receipt (signature) that a sign-and-submit call returns in a world, if it returns one.\<close>

fun receiptOf :: "world \<Rightarrow> call \<Rightarrow> string option" where
  "receiptOf w (CreateAddressLookupTable pk bh) =
     (case createAddressLookupTable w pk bh of Inl e \<Rightarrow> None | Inr (sig, a) \<Rightarrow> Some sig)"
| "receiptOf w (ExtendAddressLookupTable pk bh a) =
     (case extendAddressLookupTable w pk bh a of Inl e \<Rightarrow> None | Inr sig \<Rightarrow> Some sig)"
| "receiptOf w (SignAndSendTransaction tx) =
     (case signAndSendTransaction w tx of Inl e \<Rightarrow> None | Inr sig \<Rightarrow> Some sig)"
| "receiptOf w (SignAndSendTransactionV0WithLookupTable pk bh a) =
     (case signAndSendTransactionV0WithLookupTable w pk bh a of
        Inl e \<Rightarrow> None | Inr sig \<Rightarrow> Some sig)"
| "receiptOf w c = None"

text \<open>Every dispatch to the signer has an \<open>info\<close> entry somewhere before it.\<close>

fun infoBeforeDispatch :: "bool \<Rightarrow> event list \<Rightarrow> bool" where
  "infoBeforeDispatch seen [] = True"
| "infoBeforeDispatch seen (Logged l # es) = infoBeforeDispatch (seen \<or> status l = Info) es"
| "infoBeforeDispatch seen (Called c # es) =
     ((if isDispatch c then seen else True) \<and> infoBeforeDispatch seen es)"
| "infoBeforeDispatch seen (Rejected e # es) = infoBeforeDispatch seen es"

text \<open>Every dispatch to the signer has, somewhere after it, an entry whose status is in \<open>P\<close>.\<close>

fun entryAfterDispatch :: "(status \<Rightarrow> bool) \<Rightarrow> event list \<Rightarrow> bool" where
  "entryAfterDispatch P [] = True"
| "entryAfterDispatch P (Called c # es) =
     ((if isDispatch c then list_ex (\<lambda>l. P (status l)) (entries es) else True)
      \<and> entryAfterDispatch P es)"
| "entryAfterDispatch P (Logged l # es) = entryAfterDispatch P es"
| "entryAfterDispatch P (Rejected e # es) = entryAfterDispatch P es"

definition successOrError :: "status \<Rightarrow> bool" where
  "successOrError s = (s = Success \<or> s = Error)"

definition infoOrError :: "status \<Rightarrow> bool" where
  "infoOrError s = (s = Info \<or> s = Error)"

text \<open>
  Every receipt that a submission returns is afterwards handed to \<open>pollSignatureStatus\<close>
  together with the connection and \<open>createLog\<close>, the sink of its progress entries.
\<close>

fun receiptsPolled :: "world \<Rightarrow> event list \<Rightarrow> bool" where
  "receiptsPolled w [] = True"
| "receiptsPolled w (Called c # es) =
     ((case receiptOf w c of
         None \<Rightarrow> True
       | Some sig \<Rightarrow>
           Called (PollSignatureStatus [ArgSignature sig, ArgConnection, ArgCreateLog]) \<in> set es)
      \<and> receiptsPolled w es)"
| "receiptsPolled w (Logged l # es) = receiptsPolled w es"
| "receiptsPolled w (Rejected e # es) = receiptsPolled w es"

text \<open>The dispatches that submit: they return a receipt.\<close>

fun isSubmission :: "call \<Rightarrow> bool" where
  "isSubmission (CreateAddressLookupTable pk bh) = True"
| "isSubmission (ExtendAddressLookupTable pk bh a) = True"
| "isSubmission (SignAndSendTransaction tx) = True"
| "isSubmission (SignAndSendTransactionV0WithLookupTable pk bh a) = True"
| "isSubmission c = False"

text \<open>
  What is logged right after every dispatch to the signer.  When the dispatch is rejected,
  the next event is an \<open>error\<close> entry with the message of the rejection, and it is the last
  event.  When the dispatch returns, the next event is an \<open>info\<close> entry for a submission
  and a \<open>success\<close> entry for any other dispatch.
\<close>

fun outcomeLogged :: "event list \<Rightarrow> bool" where
  "outcomeLogged [] = True"
| "outcomeLogged (Called c # Rejected e # es) =
     (if isDispatch c
      then (case es of
              [Logged l] \<Rightarrow> status l = Error \<and> message l = e
            | _ \<Rightarrow> False)
      else outcomeLogged es)"
| "outcomeLogged (Called c # Logged l # es) =
     ((if isDispatch c then status l = (if isSubmission c then Info else Success) else True)
      \<and> outcomeLogged es)"
| "outcomeLogged (Called c # es) = (if isDispatch c then False else outcomeLogged es)"
| "outcomeLogged (e # es) = outcomeLogged es"

text \<open>The \<open>info\<close> entries of a history.\<close>

definition infoEntries :: "event list \<Rightarrow> TLog list" where
  "infoEntries h = filter (\<lambda>l. status l = Info) (entries h)"

text \<open>The three parts of the facade's contract as the specification words it.\<close>

definition facadeContract :: "world \<Rightarrow> event list \<Rightarrow> bool" where
  "facadeContract w h =
     (infoBeforeDispatch False h \<and> entryAfterDispatch successOrError h \<and> receiptsPolled w h)"

text \<open>The argument lists of the calls to \<open>pollSignatureStatus\<close>, and the receipts among them.\<close>

fun pollArgs :: "event list \<Rightarrow> argument list list" where
  "pollArgs [] = []"
| "pollArgs (Called (PollSignatureStatus args) # es) = args # pollArgs es"
| "pollArgs (e # es) = pollArgs es"

fun isCancelSignal :: "argument \<Rightarrow> bool" where
  "isCancelSignal (ArgCancelSignal s) = True"
| "isCancelSignal a = False"

definition pollsCancellable :: "event list \<Rightarrow> bool" where
  "pollsCancellable h = list_all (list_ex isCancelSignal) (pollArgs h)"

fun signaturesOf :: "argument list \<Rightarrow> string list" where
  "signaturesOf [] = []"
| "signaturesOf (ArgSignature s # as) = s # signaturesOf as"
| "signaturesOf (a # as) = signaturesOf as"

definition polled :: "event list \<Rightarrow> string list" where
  "polled h = concat (map signaturesOf (pollArgs h))"

text \<open>The position in a history of the first call that satisfies \<open>P\<close>.\<close>

fun position :: "(call \<Rightarrow> bool) \<Rightarrow> event list \<Rightarrow> nat option" where
  "position P [] = None"
| "position P (Called c # es) = (if P c then Some 0 else map_option Suc (position P es))"
| "position P (Logged l # es) = map_option Suc (position P es)"
| "position P (Rejected e # es) = map_option Suc (position P es)"

fun isExtend :: "call \<Rightarrow> bool" where
  "isExtend (ExtendAddressLookupTable pk bh a) = True"
| "isExtend c = False"

fun isLookupTableUse :: "call \<Rightarrow> bool" where
  "isLookupTableUse (SignAndSendTransactionV0WithLookupTable pk bh a) = True"
| "isLookupTableUse c = False"

section \<open>Confirmation of receipts\<close>

text \<open>
  Modelled from the spec: the status of a submission receipt (data model,
  \<open>ConfirmationStatus\<close>).  The poller that queries it is \<open>pollSignatureStatus\<close> of ./utils,
  which is not among the sources.  A network gives the status of each receipt at each
  moment; the clock of an invocation is the number of events it has produced so far.
\<close>

datatype ConfirmationStatus = Pending | Confirmed | Finalized | Failed string | TimedOut

type_synonym network = "string \<Rightarrow> nat \<Rightarrow> ConfirmationStatus"

fun atLeastConfirmed :: "ConfirmationStatus \<Rightarrow> bool" where
  "atLeastConfirmed Confirmed = True"
| "atLeastConfirmed Finalized = True"
| "atLeastConfirmed s = False"

text \<open>
  The ordering that the specification asks of the lookup-table use case: when the extend
  step is dispatched, the first receipt handed to the poller (that of the create step) is
  at least confirmed; when the versioned transaction that uses the table is dispatched, the
  second receipt (that of the extend step) has been at least confirmed for one
  confirmation interval.
\<close>

definition lookupTableOrdering :: "network \<Rightarrow> nat \<Rightarrow> event list \<Rightarrow> bool" where
  "lookupTableOrdering net interval h =
     ((case position isExtend h of
         None \<Rightarrow> True
       | Some i \<Rightarrow>
          (case polled (take i h) of
             [] \<Rightarrow> False
           | c # rs \<Rightarrow> atLeastConfirmed (net c i)))
      \<and>
      (case position isLookupTableUse h of
         None \<Rightarrow> True
       | Some j \<Rightarrow>
          (case polled (take j h) of
             c # e # rs \<Rightarrow> interval \<le> j \<and> atLeastConfirmed (net e (j - interval))
           | _ \<Rightarrow> False)))"

section \<open>Signing a batch\<close>

text \<open>
  Modelled from the spec: \<open>signBatch(transactions, signerCapability)\<close> of the Signing
  Dispatcher (\<open>signAllTransactions\<close> of ./utils, which is not among the sources; App.tsx
  calls it with two transactions).  The capability signs or rejects each member; the
  members are signed in order and the first rejection fails the whole batch.
\<close>

fun signBatch :: "'tx list \<Rightarrow> ('tx \<Rightarrow> string + 'stx) \<Rightarrow> string + 'stx list" where
  "signBatch [] signer = Inr []"
| "signBatch (t # ts) signer =
     (case signer t of
        Inl e \<Rightarrow> Inl e
      | Inr s \<Rightarrow> (case signBatch ts signer of Inl e \<Rightarrow> Inl e | Inr ss \<Rightarrow> Inr (s # ss)))"

section \<open>Sample worlds\<close>

text \<open>A connected wallet for which every call succeeds.\<close>

definition connectedWorld :: world where
  "connectedWorld =
    \<lparr>publicKey = Some ''pk'', wallet = Some ''Phantom'',
     createTransferTransaction = (\<lambda>pk n. Inr (if n = 0 then ''tx0'' else ''tx1'')),
     createTransferTransactionV0 = (\<lambda>pk. Inr ''txV0''),
     getLatestBlockhash = (\<lambda>n. Inr ''blockhash''),
     createAddressLookupTable = (\<lambda>pk bh. Inr (''sigCreate'', ''table'')),
     extendAddressLookupTable = (\<lambda>pk bh a. Inr ''sigExtend''),
     signAndSendTransaction = (\<lambda>tx. Inr ''sigSend''),
     signAndSendTransactionV0WithLookupTable = (\<lambda>pk bh a. Inr ''sigUse''),
     signTransaction = (\<lambda>tx. Inr (''signed '' @ tx)),
     signAllTransactions = (\<lambda>tx1 tx2. Inr [''signed '' @ tx1, ''signed '' @ tx2]),
     signMessage = (\<lambda>m. Inr ''signedMessage''),
     createSignInData = Inr ''input'',
     createSignInErrorData = Inr ''badInput'',
     signIn = (\<lambda>i. Inr \<lparr>account_address = ''address'', signedMessage = ''text'',
                            signature = ''sig''\<rparr>),
     connect = Inr (),
     disconnect = Inr (),
     verifySignIn = (\<lambda>i out. Inr True),
     stringify = (\<lambda>v. v),
     stringifyAll = concat,
     decode = (\<lambda>v. v)\<rparr>"

text \<open>No wallet is connected: \<open>publicKey\<close> and \<open>wallet\<close> are null.\<close>

definition disconnectedWorld :: world where
  "disconnectedWorld = connectedWorld\<lparr>publicKey := None, wallet := None\<rparr>"

text \<open>The network on which no receipt has been confirmed yet.\<close>

definition pendingNetwork :: network where
  "pendingNetwork sig t = Pending"

text \<open>
  An adapter whose \<open>signIn\<close> succeeds and leaves the adapter holding the account that signed
  in, and one without the method.
\<close>

definition signInAdapter :: adapter where
  "signInAdapter =
     \<lparr>adapter_signIn = Some (\<lambda>acct i.
        (Inr \<lparr>account_address = ''address'', signedMessage = ''text'', signature = ''sig''\<rparr>,
         Some ''address''))\<rparr>"


definition plainAdapter :: adapter where
  "plainAdapter = \<lparr>adapter_signIn = None\<rparr>"

text \<open>Shorthands for a log entry and for the call that hands a receipt to the poller.\<close>

abbreviation entry :: "status \<Rightarrow> string \<Rightarrow> string \<Rightarrow> TLog" where
  "entry s m msg \<equiv> \<lparr>status = s, method = m, message = msg\<rparr>"

abbreviation pollCall :: "string \<Rightarrow> event" where
  "pollCall sig \<equiv> Called (PollSignatureStatus [ArgSignature sig, ArgConnection, ArgCreateLog])"

section \<open>Rules for running a handler\<close>

lemma await_invoke:
  "await (invoke c r) f =
     (case r of
        Inl e \<Rightarrow> (Inl e, [Called c, Rejected e])
      | Inr x \<Rightarrow> (fst (f x), Called c # snd (f x)))"
  by (simp add: await_def invoke_def split: sum.splits prod.splits)

lemma await_Inl:
  "await (Inl e, h) f = (Inl e, h)"
  by (simp add: await_def)

lemma await_Inr:
  "await (Inr x, h) f = (fst (f x), h @ snd (f x))"
  by (simp add: await_def split: prod.splits)

lemma try_catch_Inl:
  "try_catch (Inl e, h) c = (fst (c e), h @ snd (c e))"
  by (simp add: try_catch_def split: prod.splits)

lemma try_catch_Inr:
  "try_catch (Inr x, h) c = (Inr x, h)"
  by (simp add: try_catch_def)

lemma try_catch_invoke:
  "try_catch (invoke c r) k =
     (case r of
        Inl e \<Rightarrow> (fst (k e), Called c # Rejected e # snd (k e))
      | Inr x \<Rightarrow> (Inr x, [Called c]))"
  by (simp add: invoke_def try_catch_Inl try_catch_Inr split: sum.splits)

lemmas run_simps =
  await_invoke try_catch_invoke await_Inl await_Inr try_catch_Inl try_catch_Inr
  createLog_call_def pollSignatureStatus_def return_def throw_def dropValue_def

lemmas handler_defs =
  handleSignAndSendTransaction_def handleSignAndSendTransactionV0_def
  handleSignAndSendTransactionV0WithLookupTable_def handleSignTransaction_def
  handleSignAllTransactions_def handleSignMessage_def handleSignIn_def
  handleSignInError_def handleConnect_def handleDisconnect_def

text \<open>
  What each handler does when a wallet is connected: its outcome and its events, by the
  outcomes of the calls it makes.
\<close>

lemma handleSignAndSendTransaction_run:
  assumes "publicKey w = Some pk" and "wallet w = Some wl"
  shows "handleSignAndSendTransaction w =
    (Inr (),
     Called (CreateTransferTransaction pk) #
     (case createTransferTransaction w pk 0 of
        Inl e \<Rightarrow> [Rejected e, Logged (entry Error ''signAndSendTransaction'' e)]
      | Inr transaction \<Rightarrow>
         Logged (entry Info ''signAndSendTransaction''
                   (requestingSignature (stringify w transaction))) #
         Called (SignAndSendTransaction transaction) #
         (case signAndSendTransaction w transaction of
            Inl e \<Rightarrow> [Rejected e, Logged (entry Error ''signAndSendTransaction'' e)]
          | Inr sig \<Rightarrow>
             [Logged (entry Info ''signAndSendTransaction'' (submittedTransaction sig)),
              pollCall sig])))"
  using assms
  by (simp add: handleSignAndSendTransaction_def notConnected_def run_simps
           split: sum.splits prod.splits)

lemma handleSignAndSendTransactionV0_run:
  assumes "publicKey w = Some pk" and "wallet w = Some wl"
  shows "handleSignAndSendTransactionV0 w =
    (Inr (),
     Called (CreateTransferTransactionV0 pk) #
     (case createTransferTransactionV0 w pk of
        Inl e \<Rightarrow> [Rejected e, Logged (entry Error ''signAndSendTransactionV0'' e)]
      | Inr transactionV0 \<Rightarrow>
         Logged (entry Info ''signAndSendTransactionV0''
                   (requestingSignature (stringify w transactionV0))) #
         Called (SignAndSendTransaction transactionV0) #
         (case signAndSendTransaction w transactionV0 of
            Inl e \<Rightarrow> [Rejected e, Logged (entry Error ''signAndSendTransactionV0'' e)]
          | Inr sig \<Rightarrow>
             [Logged (entry Info ''signAndSendTransactionV0'' (submittedTransactionV0 sig)),
              pollCall sig])))"
  using assms
  by (simp add: handleSignAndSendTransactionV0_def notConnected_def run_simps
           split: sum.splits prod.splits)

lemma handleSignAndSendTransactionV0WithLookupTable_run:
  assumes "publicKey w = Some pk" and "wallet w = Some wl"
  shows "handleSignAndSendTransactionV0WithLookupTable w =
    (Inr (),
     Called GetLatestBlockhash #
     (case getLatestBlockhash w 0 of
        Inl e \<Rightarrow> [Rejected e, Logged (entry Error ''signAndSendTransactionV0WithLookupTable'' e)]
      | Inr bh0 \<Rightarrow>
         Called (CreateAddressLookupTable pk bh0) #
         (case createAddressLookupTable w pk bh0 of
            Inl e \<Rightarrow>
              [Rejected e, Logged (entry Error ''signAndSendTransactionV0WithLookupTable'' e)]
          | Inr (lookupSignature, lookupTableAddress) \<Rightarrow>
             Logged (entry Info ''signAndSendTransactionV0WithLookupTable''
                       (lookupTableCreated lookupTableAddress lookupSignature)) #
             pollCall lookupSignature #
             Called GetLatestBlockhash #
             (case getLatestBlockhash w 1 of
                Inl e \<Rightarrow>
                  [Rejected e, Logged (entry Error ''signAndSendTransactionV0WithLookupTable'' e)]
              | Inr bh1 \<Rightarrow>
                 Called (ExtendAddressLookupTable pk bh1 lookupTableAddress) #
                 (case extendAddressLookupTable w pk bh1 lookupTableAddress of
                    Inl e \<Rightarrow>
                      [Rejected e,
                       Logged (entry Error ''signAndSendTransactionV0WithLookupTable'' e)]
                  | Inr extensionSignature \<Rightarrow>
                     Logged (entry Info ''signAndSendTransactionV0WithLookupTable''
                               (lookupTableExtended extensionSignature)) #
                     pollCall extensionSignature #
                     Called GetLatestBlockhash #
                     (case getLatestBlockhash w 2 of
                        Inl e \<Rightarrow>
                          [Rejected e,
                           Logged (entry Error ''signAndSendTransactionV0WithLookupTable'' e)]
                      | Inr bh2 \<Rightarrow>
                         Called (SignAndSendTransactionV0WithLookupTable pk bh2
                                   lookupTableAddress) #
                         (case signAndSendTransactionV0WithLookupTable w pk bh2
                                 lookupTableAddress of
                            Inl e \<Rightarrow>
                              [Rejected e,
                               Logged (entry Error ''signAndSendTransactionV0WithLookupTable'' e)]
                          | Inr sig \<Rightarrow>
                             [Logged (entry Info ''signAndSendTransactionV0WithLookupTable''
                                        (lookupTableUsed sig)),
                              pollCall sig])))))))"
  using assms
  by (simp add: handleSignAndSendTransactionV0WithLookupTable_def notConnected_def run_simps
           split: sum.splits prod.splits)

lemma handleSignTransaction_run:
  assumes "publicKey w = Some pk" and "wallet w = Some wl"
  shows "handleSignTransaction w =
    (Inr (),
     Called (CreateTransferTransaction pk) #
     (case createTransferTransaction w pk 0 of
        Inl e \<Rightarrow> [Rejected e, Logged (entry Error ''signTransaction'' e)]
      | Inr transaction \<Rightarrow>
         Logged (entry Info ''signTransaction''
                   (requestingSignature (stringify w transaction))) #
         Called (SignTransaction transaction) #
         (case signTransaction w transaction of
            Inl e \<Rightarrow> [Rejected e, Logged (entry Error ''signTransaction'' e)]
          | Inr signedTransaction \<Rightarrow>
             [Logged (entry Success ''signTransaction''
                        (transactionSigned (stringify w signedTransaction)))])))"
  using assms
  by (simp add: handleSignTransaction_def notConnected_def run_simps
           split: sum.splits prod.splits)

lemma handleSignAllTransactions_run:
  assumes "publicKey w = Some pk" and "wallet w = Some wl"
  shows "handleSignAllTransactions w =
    (Inr (),
     Called (CreateTransferTransaction pk) #
     (case createTransferTransaction w pk 0 of
        Inl e \<Rightarrow> [Rejected e, Logged (entry Error ''signAllTransactions'' e)]
      | Inr transaction0 \<Rightarrow>
         Called (CreateTransferTransaction pk) #
         (case createTransferTransaction w pk 1 of
            Inl e \<Rightarrow> [Rejected e, Logged (entry Error ''signAllTransactions'' e)]
          | Inr transaction1 \<Rightarrow>
             Logged (entry Info ''signAllTransactions''
                       (requestingSignature (stringifyAll w [transaction0, transaction1]))) #
             Called (SignAllTransactions transaction0 transaction1) #
             (case signAllTransactions w transaction0 transaction1 of
                Inl e \<Rightarrow> [Rejected e, Logged (entry Error ''signAllTransactions'' e)]
              | Inr signedTransactions \<Rightarrow>
                 [Logged (entry Success ''signAllTransactions''
                            (transactionsSigned (stringifyAll w signedTransactions)))]))))"
  using assms
  by (simp add: handleSignAllTransactions_def notConnected_def run_simps
           split: sum.splits prod.splits)

lemma handleSignMessage_run:
  assumes "publicKey w = Some pk" and "wallet w = Some wl"
  shows "handleSignMessage w =
    (case signMessage w message_const of
       Inl e \<Rightarrow>
         (Inr None,
          [Called (SignMessage message_const), Rejected e,
           Logged (entry Error ''signMessage'' e)])
     | Inr signed \<Rightarrow>
         (Inr (Some signed),
          [Called (SignMessage message_const),
           Logged (entry Success ''signMessage'' (messageSigned (stringify w signed)))]))"
  using assms
  by (simp add: handleSignMessage_def notConnected_def run_simps
           split: sum.splits prod.splits)

lemma handleSignIn_run:
  assumes "publicKey w = Some pk" and "wallet w = Some wl"
  shows "handleSignIn w =
    (case createSignInData w of
       Inl e \<Rightarrow> (Inl e, [Called CreateSignInData, Rejected e])
     | Inr signInData \<Rightarrow>
        (Inr (),
         Called CreateSignInData # Called (SignIn signInData) #
         (case signIn w signInData of
            Inl e \<Rightarrow> [Rejected e, Logged (entry Error ''signIn'' e)]
          | Inr out \<Rightarrow>
             [Logged (entry Success ''signIn''
                        (messageSignedBy (decode w (signedMessage out)) (account_address out)
                           (signature out)))])))"
  using assms
  by (simp add: handleSignIn_def notConnected_def run_simps
           split: sum.splits prod.splits)

lemma handleSignInError_run:
  assumes "publicKey w = Some pk" and "wallet w = Some wl"
  shows "handleSignInError w =
    (case createSignInErrorData w of
       Inl e \<Rightarrow> (Inl e, [Called CreateSignInErrorData, Rejected e])
     | Inr signInData \<Rightarrow>
        (Inr (),
         Called CreateSignInErrorData # Called (SignIn signInData) #
         (case signIn w signInData of
            Inl e \<Rightarrow> [Rejected e, Logged (entry Error ''signIn'' e)]
          | Inr out \<Rightarrow>
             [Logged (entry Success ''signMessage''
                        (messageSignedBy (stringify w (signedMessage out)) (account_address out)
                           (signature out)))])))"
  using assms
  by (simp add: handleSignInError_def notConnected_def run_simps
           split: sum.splits prod.splits)

lemma handleConnect_run:
  assumes "publicKey w = Some pk" and "wallet w = Some wl"
  shows "handleConnect w =
    (Inr (),
     Called Connect #
     (case connect w of
        Inl e \<Rightarrow> [Rejected e, Logged (entry Error ''connect'' e)]
      | Inr u \<Rightarrow> []))"
  using assms
  by (simp add: handleConnect_def notConnected_def run_simps
           split: sum.splits prod.splits)

lemma handleDisconnect_run:
  assumes "publicKey w = Some pk" and "wallet w = Some wl"
  shows "handleDisconnect w =
    (Inr (),
     Called Disconnect #
     (case disconnect w of
        Inl e \<Rightarrow> [Rejected e, Logged (entry Error ''disconnect'' e)]
      | Inr u \<Rightarrow> [Logged (entry Warning ''disconnect'' wavingHand)]))"
  using assms
  by (simp add: handleDisconnect_def notConnected_def run_simps
           split: sum.splits prod.splits)

section \<open>The log is append-only\<close>

lemma commit_entries: "commit h logs = logs @ entries h"
proof (induction h arbitrary: logs)
  case Nil
  show ?case by simp
next
  case (Cons e h)
  show ?case by (cases e) (simp_all add: Cons.IH createLog_def)
qed

lemma entries_shuffles:
  "h \<in> shuffles h1 h2 \<Longrightarrow> entries h \<in> shuffles (entries h1) (entries h2)"
proof (induction h1 h2 arbitrary: h rule: shuffles.induct)
  case (1 ys)
  then show ?case by simp
next
  case (2 xs)
  then show ?case by simp
next
  case (3 x xs y ys)
  from "3.prems" consider
      (left) h' where "h = x # h'" "h' \<in> shuffles xs (y # ys)"
    | (right) h' where "h = y # h'" "h' \<in> shuffles (x # xs) ys"
    by (auto simp: shuffles.simps(3))
  then show ?case
  proof cases
    case left
    from "3.IH"(1) [OF left(2)] show ?thesis
      using left(1)
      by (cases x; cases y) (auto simp: shuffles.simps(3) Cons_in_shuffles_iff)
  next
    case right
    from "3.IH"(2) [OF right(2)] show ?thesis
      using right(1)
      by (cases x; cases y) (auto simp: shuffles.simps(3) Cons_in_shuffles_iff)
  qed
qed

text \<open>
  C8: an append through \<open>createLog\<close> leaves the old log unchanged as a prefix and adds
  exactly the one new entry at its end.  Hence, however the events of two invocations
  \<open>h1\<close> and \<open>h2\<close> interleave into \<open>h\<close>, the log afterwards is the old log followed by
  the entries of \<open>h\<close>, and these are the entries of \<open>h1\<close> and of \<open>h2\<close>, each whole and
  in its own order.
\<close>

theorem createLog_atomic_push:
  "createLog e logs = logs @ [e] \<and>
   (h \<in> shuffles h1 h2 \<longrightarrow>
      commit h logs = logs @ entries h \<and> entries h \<in> shuffles (entries h1) (entries h2))"
  by (simp add: createLog_def commit_entries entries_shuffles)

theorem createLog_atomic_push_witness:
  "[Logged \<lparr>status = Info, method = ''signTransaction'', message = ''a''\<rparr>,
    Called Disconnect,
    Logged \<lparr>status = Warning, method = ''disconnect'', message = ''b''\<rparr>]
     \<in> shuffles [Logged \<lparr>status = Info, method = ''signTransaction'', message = ''a''\<rparr>]
          [Called Disconnect, Logged \<lparr>status = Warning, method = ''disconnect'', message = ''b''\<rparr>]
   \<and> commit
        [Logged \<lparr>status = Info, method = ''signTransaction'', message = ''a''\<rparr>,
         Called Disconnect,
         Logged \<lparr>status = Warning, method = ''disconnect'', message = ''b''\<rparr>]
        [\<lparr>status = Success, method = ''connect'', message = ''c''\<rparr>]
      = [\<lparr>status = Success, method = ''connect'', message = ''c''\<rparr>,
         \<lparr>status = Info, method = ''signTransaction'', message = ''a''\<rparr>,
         \<lparr>status = Warning, method = ''disconnect'', message = ''b''\<rparr>]"
  using createLog_atomic_push
    [of "\<lparr>status = Info, method = ''signTransaction'', message = ''a''\<rparr>"
        "[\<lparr>status = Success, method = ''connect'', message = ''c''\<rparr>]"
        "[Logged \<lparr>status = Info, method = ''signTransaction'', message = ''a''\<rparr>,
          Called Disconnect,
          Logged \<lparr>status = Warning, method = ''disconnect'', message = ''b''\<rparr>]"
        "[Logged \<lparr>status = Info, method = ''signTransaction'', message = ''a''\<rparr>]"
        "[Called Disconnect,
          Logged \<lparr>status = Warning, method = ''disconnect'', message = ''b''\<rparr>]"]
  by (simp add: shuffles.simps(3) createLog_def)

section \<open>Not connected\<close>

text \<open>
  C3: when \<open>publicKey\<close> or \<open>wallet\<close> is absent, every handler returns at once with
  \<open>undefined\<close>: it produces no event, so the log stays as it was and no call is made
  (no building, signing, submission or network call).
\<close>

theorem notConnected_noop:
  "notConnected w \<Longrightarrow>
     onClick uc w = (Inr None, []) \<and> commit (snd (onClick uc w)) logs = logs
     \<and> calls (snd (onClick uc w)) = []"
  by (cases uc) (simp_all add: handler_defs run_simps)

theorem notConnected_noop_witness:
  "notConnected disconnectedWorld \<and>
   onClick SignAndSendTransactionV0LookupTable disconnectedWorld = (Inr None, [])"
  using notConnected_noop [of disconnectedWorld SignAndSendTransactionV0LookupTable "[]"]
  by (simp add: notConnected_def disconnectedWorld_def)

section \<open>Auto-connect\<close>

lemma autoSignIn_None:
  "adapter_signIn a = None \<Longrightarrow> autoSignIn w a acct = ((Inr True, []), acct)"
  by (simp add: autoSignIn_def keep_def return_def)

lemma autoSignIn_Some:
  "adapter_signIn a = Some f \<Longrightarrow>
   autoSignIn w a acct =
     (case createSignInData w of
        Inl e \<Rightarrow> ((Inl e, [Called CreateSignInData, Rejected e]), acct)
      | Inr i \<Rightarrow>
         (case f acct i of
            (Inl e, acct') \<Rightarrow>
              ((Inl e, [Called CreateSignInData, Called (AdapterSignIn i), Rejected e]), acct')
          | (Inr out, acct') \<Rightarrow>
             (case verifySignIn w i out of
                Inl e \<Rightarrow>
                  ((Inl e, [Called CreateSignInData, Called (AdapterSignIn i),
                            Called (VerifySignIn i out), Rejected e]), acct')
              | Inr ok \<Rightarrow>
                 ((if ok then Inr False else Inl ''Sign In verification failed!'',
                   [Called CreateSignInData, Called (AdapterSignIn i),
                    Called (VerifySignIn i out)]), acct'))))"
  by (simp add: autoSignIn_def awaitStep_def keep_def adapterCall_def invoke_def return_def
        throw_def split: sum.splits prod.splits)




text \<open>
  C10: the callback returns true exactly when the adapter has no \<open>signIn\<close>, and then it has
  called nothing.  When the adapter has \<open>signIn\<close>, the callback either throws, or it returns
  false, and then it has created the sign-in data, has called the adapter's \<open>signIn\<close> with
  that data, and has called \<open>verifySignIn\<close> with that data and the output of that sign-in,
  which has returned true: it never returns without that verification.  And it does
  return false whenever these three steps succeed with a true verdict.
\<close>

theorem autoSignIn_true_iff_no_signIn:
  "(fst (fst (autoSignIn w a acct)) = Inr True \<longleftrightarrow> adapter_signIn a = None)
   \<and> (adapter_signIn a = None \<longrightarrow> autoSignIn w a acct = ((Inr True, []), acct))
   \<and> (\<forall>f. adapter_signIn a = Some f \<longrightarrow>
        (\<exists>i out acct'.
            createSignInData w = Inr i \<and> f acct i = (Inr out, acct')
            \<and> verifySignIn w i out = Inr True
            \<and> autoSignIn w a acct =
                ((Inr False,
                  [Called CreateSignInData, Called (AdapterSignIn i),
                   Called (VerifySignIn i out)]),
                 acct'))
        \<or> (\<exists>e. fst (fst (autoSignIn w a acct)) = Inl e))
   \<and> (\<forall>f i out acct'.
        adapter_signIn a = Some f \<and> createSignInData w = Inr i \<and> f acct i = (Inr out, acct')
        \<and> verifySignIn w i out = Inr True \<longrightarrow>
        autoSignIn w a acct =
          ((Inr False,
            [Called CreateSignInData, Called (AdapterSignIn i), Called (VerifySignIn i out)]),
           acct'))"
proof (cases "adapter_signIn a")
  case None
  then show ?thesis by (simp add: autoSignIn_None)
next
  case (Some f)
  show ?thesis
  proof (cases "createSignInData w")
    case (Inl e)
    with Some show ?thesis by (simp add: autoSignIn_Some)
  next
    case i: (Inr i)
    obtain r acct' where f: "f acct i = (r, acct')" by (cases "f acct i")
    show ?thesis
    proof (cases r)
      case (Inl e)
      with Some i f show ?thesis by (simp add: autoSignIn_Some)
    next
      case out: (Inr out)
      show ?thesis
      proof (cases "verifySignIn w i out")
        case (Inl e)
        with Some i f out show ?thesis by (simp add: autoSignIn_Some)
      next
        case (Inr ok)
        with Some i f out show ?thesis by (cases ok) (simp_all add: autoSignIn_Some)
      qed
    qed
  qed
qed

theorem autoSignIn_true_iff_no_signIn_witness:
  "autoSignIn connectedWorld signInAdapter None =
     ((Inr False,
       [Called CreateSignInData, Called (AdapterSignIn ''input''),
        Called (VerifySignIn ''input''
          \<lparr>account_address = ''address'', signedMessage = ''text'', signature = ''sig''\<rparr>)]),
      Some ''address'')
   \<and> verifySignIn connectedWorld ''input''
       \<lparr>account_address = ''address'', signedMessage = ''text'', signature = ''sig''\<rparr>
       = Inr True
   \<and> adapter_signIn plainAdapter = None
   \<and> autoSignIn connectedWorld plainAdapter None = ((Inr True, []), None)"
  using autoSignIn_true_iff_no_signIn [of connectedWorld signInAdapter None]
        autoSignIn_true_iff_no_signIn [of connectedWorld plainAdapter None]
  by (simp add: signInAdapter_def plainAdapter_def connectedWorld_def autoSignIn_def
        awaitStep_def keep_def adapterCall_def invoke_def return_def throw_def)

section \<open>Signing a batch keeps the order\<close>

lemma signBatch_Inr:
  "signBatch txs signer = Inr out \<Longrightarrow>
     length out = length txs \<and> (\<forall>i<length txs. signer (txs ! i) = Inr (out ! i))"
proof (induction txs arbitrary: out)
  case Nil
  then show ?case by simp
next
  case (Cons t ts)
  from Cons.prems obtain s where s: "signer t = Inr s"
    by (cases "signer t") simp_all
  from Cons.prems s obtain ss where ss: "signBatch ts signer = Inr ss"
    by (cases "signBatch ts signer") simp_all
  from Cons.prems s ss have out: "out = s # ss"
    by simp
  from Cons.IH [OF ss] have len: "length ss = length ts"
    and nth: "\<And>i. i < length ts \<Longrightarrow> signer (ts ! i) = Inr (ss ! i)"
    by simp_all
  show ?case
  proof (intro conjI allI impI)
    show "length out = length (t # ts)" by (simp add: out len)
  next
    fix i assume "i < length (t # ts)"
    then show "signer ((t # ts) ! i) = Inr (out ! i)"
      by (cases i) (simp_all add: out s nth)
  qed
qed

lemma signBatch_all_signed:
  "\<forall>t\<in>set txs. \<exists>s. signer t = Inr s \<Longrightarrow> \<exists>out. signBatch txs signer = Inr out"
proof (induction txs)
  case Nil
  show ?case by simp
next
  case (Cons t ts)
  then obtain s ss where "signer t = Inr s" "signBatch ts signer = Inr ss"
    by auto
  then show ?case by simp
qed

lemma signBatch_rejected:
  "t \<in> set txs \<Longrightarrow> signer t = Inl e \<Longrightarrow> \<exists>e'. signBatch txs signer = Inl e'"
proof (induction txs)
  case Nil
  then show ?case by simp
next
  case (Cons u us)
  show ?case
  proof (cases "signer u")
    case (Inl e')
    then show ?thesis by simp
  next
    case (Inr s)
    with Cons.prems have "t \<in> set us" by auto
    from Cons.IH [OF this Cons.prems(2)] show ?thesis
      by (auto simp: Inr)
  qed
qed

text \<open>
  C7: when the signer signs every member, \<open>signBatch\<close> returns as many signed
  transactions as it was given, the i-th being the signer's result for the i-th input;
  when the signer rejects some member, the whole batch fails and no signed transaction is
  returned.
\<close>

theorem signBatch_preserves_order_atomically:
  "((\<forall>t\<in>set txs. \<exists>s. signer t = Inr s) \<longrightarrow>
      (\<exists>out. signBatch txs signer = Inr out \<and> length out = length txs
         \<and> (\<forall>i<length txs. signer (txs ! i) = Inr (out ! i))))
   \<and> ((\<exists>t\<in>set txs. \<exists>e. signer t = Inl e) \<longrightarrow> (\<exists>e. signBatch txs signer = Inl e))"
proof (intro conjI impI)
  assume "\<forall>t\<in>set txs. \<exists>s. signer t = Inr s"
  from signBatch_all_signed [OF this] obtain out where out: "signBatch txs signer = Inr out" ..
  from signBatch_Inr [OF out] out
  show "\<exists>out. signBatch txs signer = Inr out \<and> length out = length txs
         \<and> (\<forall>i<length txs. signer (txs ! i) = Inr (out ! i))"
    by (intro exI [of _ out]) simp
next
  assume "\<exists>t\<in>set txs. \<exists>e. signer t = Inl e"
  then obtain t e where "t \<in> set txs" "signer t = Inl e" by auto
  then show "\<exists>e. signBatch txs signer = Inl e"
    by (rule signBatch_rejected)
qed

theorem signBatch_preserves_order_atomically_witness:
  "signBatch [''tx0'', ''tx1''] (\<lambda>t. Inr (''signed '' @ t) :: string + string)
     = Inr [''signed tx0'', ''signed tx1'']
   \<and> signBatch [''tx0'', ''tx1'']
        (\<lambda>t. if t = ''tx1'' then Inl ''User rejected the request.''
             else (Inr (''signed '' @ t) :: string + string))
        = Inl ''User rejected the request.''"
  using signBatch_preserves_order_atomically
      [of "[''tx0'', ''tx1'']" "\<lambda>t. Inr (''signed '' @ t) :: string + string"]
    signBatch_preserves_order_atomically
      [of "[''tx0'', ''tx1'']"
          "\<lambda>t. if t = ''tx1'' then Inl ''User rejected the request.''
               else (Inr (''signed '' @ t) :: string + string)"]
  by simp

text \<open>
  With \<open>signBatch\<close> on the two transfers for \<open>signAllTransactions\<close>, the sign-all handler
  logs its request and then either one \<open>success\<close> entry with the whole signed batch, in
  order, or one \<open>error\<close> entry: never a part of a batch.
\<close>

lemma handleSignAllTransactions_signBatch:
  assumes c: "publicKey w = Some pk" "wallet w = Some wl"
    and t0: "createTransferTransaction w pk 0 = Inr t0"
    and t1: "createTransferTransaction w pk 1 = Inr t1"
    and cap: "signAllTransactions w = (\<lambda>a b. signBatch [a, b] signer)"
  shows "entries (snd (handleSignAllTransactions w)) =
     [entry Info ''signAllTransactions'' (requestingSignature (stringifyAll w [t0, t1])),
      (case signBatch [t0, t1] signer of
         Inl e \<Rightarrow> entry Error ''signAllTransactions'' e
       | Inr ss \<Rightarrow>
           entry Success ''signAllTransactions'' (transactionsSigned (stringifyAll w ss)))]"
proof (cases "signBatch [t0, t1] signer")
  case (Inl e)
  then show ?thesis
    by (simp only: handleSignAllTransactions_run [OF c] t0 t1 cap) simp
next
  case (Inr ss)
  then show ?thesis
    by (simp only: handleSignAllTransactions_run [OF c] t0 t1 cap) simp
qed

section \<open>The lookup-table use case and the confirmation of its receipts\<close>

lemma connectedE:
  assumes "\<not> notConnected w"
  obtains pk wl where "publicKey w = Some pk" and "wallet w = Some wl"
  using assms by (auto simp: notConnected_def)

text \<open>
  C1, as the specification states it, fails.  In the world where every call succeeds and
  on the network where no receipt is confirmed yet, the handler still dispatches the
  extend step (event 5) and the versioned transaction that uses the table (event 9):
  \<open>pollSignatureStatus\<close> is not awaited, and nothing else in the handler looks at the
  status of a receipt.
\<close>

theorem lookupTable_ordering_counterexample:
  "\<not> lookupTableOrdering pendingNetwork 1
       (snd (handleSignAndSendTransactionV0WithLookupTable connectedWorld))"
  by (simp add: handleSignAndSendTransactionV0WithLookupTable_def run_simps notConnected_def
        connectedWorld_def lookupTableOrdering_def polled_def pendingNetwork_def)

text \<open>
  C1, amended: the extend step is dispatched only after the create step has returned its
  receipt and that receipt, and no other, has been handed to the poller; the versioned
  transaction that uses the table is dispatched only after the extend step has returned
  its receipt and that receipt has been handed to the poller as well.  The handler waits
  for no confirmation: whenever it reaches the extend step, the ordering of the
  specification fails on the network where no receipt is confirmed yet, whatever the
  confirmation interval.
\<close>

theorem lookupTable_steps_follow_receipts:
  "(\<forall>i. position isExtend (snd (handleSignAndSendTransactionV0WithLookupTable w)) = Some i \<longrightarrow>
      (\<exists>pk bh0 sigC addr.
          publicKey w = Some pk \<and> createAddressLookupTable w pk bh0 = Inr (sigC, addr)
          \<and> polled (take i (snd (handleSignAndSendTransactionV0WithLookupTable w))) = [sigC])
      \<and> \<not> lookupTableOrdering pendingNetwork interval
            (snd (handleSignAndSendTransactionV0WithLookupTable w)))
   \<and>
   (\<forall>j. position isLookupTableUse (snd (handleSignAndSendTransactionV0WithLookupTable w)) = Some j
      \<longrightarrow>
      (\<exists>pk bh0 bh1 sigC addr sigE.
          publicKey w = Some pk \<and> createAddressLookupTable w pk bh0 = Inr (sigC, addr)
          \<and> extendAddressLookupTable w pk bh1 addr = Inr sigE
          \<and> polled (take j (snd (handleSignAndSendTransactionV0WithLookupTable w)))
              = [sigC, sigE]))"
proof (cases "notConnected w")
  case True
  then show ?thesis
    by (simp add: handleSignAndSendTransactionV0WithLookupTable_def run_simps)
next
  case False
  then obtain pk wl where c: "publicKey w = Some pk" "wallet w = Some wl"
    by (rule connectedE)
  show ?thesis
    by (simp add: handleSignAndSendTransactionV0WithLookupTable_run [OF c] c polled_def
          lookupTableOrdering_def pendingNetwork_def
          split: sum.splits prod.splits)
       blast
qed

theorem lookupTable_steps_follow_receipts_witness:
  "position isExtend (snd (handleSignAndSendTransactionV0WithLookupTable connectedWorld)) = Some 5
   \<and> polled (take 5 (snd (handleSignAndSendTransactionV0WithLookupTable connectedWorld)))
       = [''sigCreate'']
   \<and> position isLookupTableUse (snd (handleSignAndSendTransactionV0WithLookupTable connectedWorld))
       = Some 9
   \<and> polled (take 9 (snd (handleSignAndSendTransactionV0WithLookupTable connectedWorld)))
       = [''sigCreate'', ''sigExtend'']"
  using lookupTable_steps_follow_receipts [of connectedWorld 1]
  by (simp add: handleSignAndSendTransactionV0WithLookupTable_def run_simps notConnected_def
        connectedWorld_def polled_def)


section \<open>Logging around a dispatch\<close>

text \<open>
  C4, as the specification states it, fails.  With every call succeeding, the legacy
  transfer logs \<open>info\<close> after its dispatch and neither \<open>success\<close> nor \<open>error\<close>;
  signing a message logs no \<open>info\<close> entry before the dispatch; and the lookup-table use
  case logs none before its first dispatch.
\<close>

theorem facadeContract_counterexample:
  "\<not> entryAfterDispatch successOrError
       (snd (onClick SignAndSendTransactionLegacy connectedWorld))
   \<and> \<not> facadeContract connectedWorld
       (snd (onClick SignAndSendTransactionLegacy connectedWorld))
   \<and> \<not> infoBeforeDispatch False (snd (onClick SignMessageText connectedWorld))
   \<and> \<not> infoBeforeDispatch False
       (snd (onClick SignAndSendTransactionV0LookupTable connectedWorld))"
  by (simp add: handler_defs run_simps notConnected_def connectedWorld_def
        facadeContract_def successOrError_def)

text \<open>
  C4, amended: the legacy transfer, the versioned transfer, sign-only and sign-all log an
  \<open>info\<close> entry before they dispatch to the signer; sign-message and the two sign-in use
  cases log no \<open>info\<close> entry at all, and the lookup-table use case logs nothing before its
  first dispatch.  Right after every dispatch the handler logs its outcome: an \<open>error\<close>
  entry with the message of the error, and nothing more, when the dispatch is rejected; an
  \<open>info\<close> entry when a submission returns (legacy, versioned, and the three steps of the
  lookup table); a \<open>success\<close> entry when any other dispatch returns (sign-only, sign-all,
  sign-message, sign-in, sign-in-error).  In every use case each receipt that a submission
  returns is handed to \<open>pollSignatureStatus\<close> with the connection and \<open>createLog\<close>.
\<close>

theorem facade_logging:
  "(uc \<in> {SignAndSendTransactionLegacy, SignAndSendTransactionV0, SignTransactionOnly,
           SignAllTransactionsBatch}
      \<longrightarrow> infoBeforeDispatch False (snd (onClick uc w)))
   \<and> (uc \<in> {SignMessageText, SignInOk, SignInError}
      \<longrightarrow> infoEntries (snd (onClick uc w)) = [])
   \<and> (\<forall>i. uc = SignAndSendTransactionV0LookupTable
          \<and> position isDispatch (snd (onClick uc w)) = Some i
      \<longrightarrow> entries (take i (snd (onClick uc w))) = [])
   \<and> outcomeLogged (snd (onClick uc w))
   \<and> (uc \<in> {SignTransactionOnly, SignAllTransactionsBatch, SignMessageText, SignInOk,
             SignInError}
      \<longrightarrow> entryAfterDispatch successOrError (snd (onClick uc w)))
   \<and> (uc \<in> {SignAndSendTransactionLegacy, SignAndSendTransactionV0,
             SignAndSendTransactionV0LookupTable}
      \<longrightarrow> entryAfterDispatch infoOrError (snd (onClick uc w)))
   \<and> receiptsPolled w (snd (onClick uc w))"
proof (cases "notConnected w")
  case True
  then show ?thesis
    by (cases uc)
       (simp_all add: handler_defs run_simps infoEntries_def)
next
  case False
  then obtain pk wl where c: "publicKey w = Some pk" "wallet w = Some wl"
    by (rule connectedE)
  show ?thesis
  proof (cases uc)
    case SignAndSendTransactionLegacy
    then show ?thesis
      by (simp add: handleSignAndSendTransaction_run [OF c] dropValue_def infoOrError_def
            infoEntries_def successOrError_def split: sum.splits prod.splits)
  next
    case SignAndSendTransactionV0
    then show ?thesis
      by (simp add: handleSignAndSendTransactionV0_run [OF c] dropValue_def infoOrError_def
            infoEntries_def successOrError_def split: sum.splits prod.splits)
  next
    case SignAndSendTransactionV0LookupTable
    then show ?thesis
      by (simp add: handleSignAndSendTransactionV0WithLookupTable_run [OF c] dropValue_def
            infoOrError_def infoEntries_def successOrError_def
            split: sum.splits prod.splits)
  next
    case SignTransactionOnly
    then show ?thesis
      by (simp add: handleSignTransaction_run [OF c] dropValue_def infoOrError_def
            infoEntries_def successOrError_def split: sum.splits prod.splits)
  next
    case SignAllTransactionsBatch
    then show ?thesis
      by (simp add: handleSignAllTransactions_run [OF c] dropValue_def infoOrError_def
            infoEntries_def successOrError_def split: sum.splits prod.splits)
  next
    case SignMessageText
    then show ?thesis
      by (simp add: handleSignMessage_run [OF c] dropValue_def infoOrError_def
            infoEntries_def successOrError_def split: sum.splits prod.splits)
  next
    case SignInOk
    then show ?thesis
      by (simp add: handleSignIn_run [OF c] dropValue_def infoOrError_def
            infoEntries_def successOrError_def split: sum.splits prod.splits)
  next
    case SignInError
    then show ?thesis
      by (simp add: handleSignInError_run [OF c] dropValue_def infoOrError_def
            infoEntries_def successOrError_def split: sum.splits prod.splits)
  next
    case DisconnectWallet
    then show ?thesis
      by (simp add: handleDisconnect_run [OF c] dropValue_def infoOrError_def
            infoEntries_def successOrError_def split: sum.splits prod.splits)
  next
    case ConnectWallet
    then show ?thesis
      by (simp add: handleConnect_run [OF c] dropValue_def infoOrError_def
            infoEntries_def successOrError_def split: sum.splits prod.splits)
  qed
qed

theorem facade_logging_witness:
  "snd (onClick SignAndSendTransactionLegacy connectedWorld) =
     [Called (CreateTransferTransaction ''pk''),
      Logged (entry Info ''signAndSendTransaction'' (requestingSignature ''tx0'')),
      Called (SignAndSendTransaction ''tx0''),
      Logged (entry Info ''signAndSendTransaction'' (submittedTransaction ''sigSend'')),
      pollCall ''sigSend'']
   \<and> infoBeforeDispatch False (snd (onClick SignAndSendTransactionLegacy connectedWorld))
   \<and> outcomeLogged (snd (onClick SignAndSendTransactionLegacy connectedWorld))
   \<and> entryAfterDispatch infoOrError (snd (onClick SignAndSendTransactionLegacy connectedWorld))
   \<and> receiptsPolled connectedWorld (snd (onClick SignAndSendTransactionLegacy connectedWorld))
   \<and> snd (onClick SignTransactionOnly connectedWorld) =
     [Called (CreateTransferTransaction ''pk''),
      Logged (entry Info ''signTransaction'' (requestingSignature ''tx0'')),
      Called (SignTransaction ''tx0''),
      Logged (entry Success ''signTransaction'' (transactionSigned ''signed tx0''))]
   \<and> entryAfterDispatch successOrError (snd (onClick SignTransactionOnly connectedWorld))
   \<and> outcomeLogged (snd (onClick SignTransactionOnly connectedWorld))
   \<and> snd (onClick SignMessageText connectedWorld) =
     [Called (SignMessage message_const),
      Logged (entry Success ''signMessage'' (messageSigned ''signedMessage''))]
   \<and> infoEntries (snd (onClick SignMessageText connectedWorld)) = []
   \<and> position isDispatch (snd (onClick SignAndSendTransactionV0LookupTable connectedWorld))
       = Some 1
   \<and> entries (take 1 (snd (onClick SignAndSendTransactionV0LookupTable connectedWorld))) = []"
  using facade_logging [of SignAndSendTransactionLegacy connectedWorld]
        facade_logging [of SignTransactionOnly connectedWorld]
        facade_logging [of SignMessageText connectedWorld]
        facade_logging [of SignAndSendTransactionV0LookupTable connectedWorld]
  by (simp add: handler_defs run_simps notConnected_def connectedWorld_def infoEntries_def)

section \<open>Polling is started without a cancellation signal\<close>

text \<open>
  C9, as the specification states it, fails: the legacy transfer starts its polling loop
  with the receipt, the connection and \<open>createLog\<close>, and with no cancellation signal.
\<close>

theorem polls_not_cancellable_counterexample:
  "\<not> pollsCancellable (snd (onClick SignAndSendTransactionLegacy connectedWorld))"
  by (simp add: handleSignAndSendTransaction_def run_simps notConnected_def
        pollsCancellable_def connectedWorld_def)

text \<open>
  C9, amended: every polling loop that a use case starts is started with exactly the
  receipt returned by one of its submissions, the connection and \<open>createLog\<close>; no
  cancellation signal is among the arguments (and the handlers take none from their
  caller and drop the promise that the poller returns).
\<close>

theorem polls_started_without_cancel_signal:
  "\<forall>args \<in> set (pollArgs (snd (onClick uc w))).
      \<not> list_ex isCancelSignal args \<and>
      (\<exists>sig. args = [ArgSignature sig, ArgConnection, ArgCreateLog] \<and>
         (\<exists>c \<in> set (calls (snd (onClick uc w))). receiptOf w c = Some sig))"
proof (cases "notConnected w")
  case True
  then show ?thesis by (cases uc) (simp_all add: handler_defs run_simps)
next
  case False
  then obtain pk wl where c: "publicKey w = Some pk" "wallet w = Some wl"
    by (rule connectedE)
  show ?thesis
  proof (cases uc)
    case SignAndSendTransactionLegacy
    then show ?thesis
      by (simp add: handleSignAndSendTransaction_run [OF c] dropValue_def
            split: sum.splits prod.splits)
  next
    case SignAndSendTransactionV0
    then show ?thesis
      by (simp add: handleSignAndSendTransactionV0_run [OF c] dropValue_def
            split: sum.splits prod.splits)
  next
    case SignAndSendTransactionV0LookupTable
    then show ?thesis
      by (simp add: handleSignAndSendTransactionV0WithLookupTable_run [OF c] dropValue_def
            split: sum.splits prod.splits)
  next
    case SignTransactionOnly
    then show ?thesis
      by (simp add: handleSignTransaction_run [OF c] dropValue_def
            split: sum.splits prod.splits)
  next
    case SignAllTransactionsBatch
    then show ?thesis
      by (simp add: handleSignAllTransactions_run [OF c] dropValue_def
            split: sum.splits prod.splits)
  next
    case SignMessageText
    then show ?thesis
      by (simp add: handleSignMessage_run [OF c] dropValue_def
            split: sum.splits prod.splits)
  next
    case SignInOk
    then show ?thesis
      by (simp add: handleSignIn_run [OF c] dropValue_def
            split: sum.splits prod.splits)
  next
    case SignInError
    then show ?thesis
      by (simp add: handleSignInError_run [OF c] dropValue_def
            split: sum.splits prod.splits)
  next
    case DisconnectWallet
    then show ?thesis
      by (simp add: handleDisconnect_run [OF c] dropValue_def
            split: sum.splits prod.splits)
  next
    case ConnectWallet
    then show ?thesis
      by (simp add: handleConnect_run [OF c] dropValue_def
            split: sum.splits prod.splits)
  qed
qed

theorem polls_started_without_cancel_signal_witness:
  "pollArgs (snd (onClick SignAndSendTransactionV0LookupTable connectedWorld)) =
     [[ArgSignature ''sigCreate'', ArgConnection, ArgCreateLog],
      [ArgSignature ''sigExtend'', ArgConnection, ArgCreateLog],
      [ArgSignature ''sigUse'', ArgConnection, ArgCreateLog]]
   \<and> list_all (\<lambda>args. \<not> list_ex isCancelSignal args)
        (pollArgs (snd (onClick SignAndSendTransactionV0LookupTable connectedWorld)))"
  using polls_started_without_cancel_signal
          [of SignAndSendTransactionV0LookupTable connectedWorld]
  by (simp add: handleSignAndSendTransactionV0WithLookupTable_def run_simps notConnected_def
        connectedWorld_def)

section \<open>Errors at the boundary of a handler\<close>

text \<open>
  Wherever a call is made inside the \<open>try\<close> block, its error is caught: the handler
  returns normally, and the log gets one \<open>error\<close> entry, with the message of the error.
  That covers every use case but the two sign-in ones when creating their sign-in data
  fails.
\<close>

lemma errors_inside_try_logged_once:
  assumes "uc \<noteq> SignInOk \<or> isl (createSignInData w) = False"
    and "uc \<noteq> SignInError \<or> isl (createSignInErrorData w) = False"
  shows "isl (fst (onClick uc w)) = False
    \<and> (\<forall>e. Rejected e \<in> set (snd (onClick uc w)) \<longrightarrow>
          map message (filter (\<lambda>l. status l = Error) (entries (snd (onClick uc w)))) = [e])"
proof (cases "notConnected w")
  case True
  then show ?thesis by (cases uc) (simp_all add: handler_defs run_simps)
next
  case False
  then obtain pk wl where c: "publicKey w = Some pk" "wallet w = Some wl"
    by (rule connectedE)
  show ?thesis
  proof (cases uc)
    case SignAndSendTransactionLegacy
    then show ?thesis
      by (simp add: handleSignAndSendTransaction_run [OF c] dropValue_def
            split: sum.splits prod.splits)
  next
    case SignAndSendTransactionV0
    then show ?thesis
      by (simp add: handleSignAndSendTransactionV0_run [OF c] dropValue_def
            split: sum.splits prod.splits)
  next
    case SignAndSendTransactionV0LookupTable
    then show ?thesis
      by (simp add: handleSignAndSendTransactionV0WithLookupTable_run [OF c] dropValue_def
            split: sum.splits prod.splits)
  next
    case SignTransactionOnly
    then show ?thesis
      by (simp add: handleSignTransaction_run [OF c] dropValue_def
            split: sum.splits prod.splits)
  next
    case SignAllTransactionsBatch
    then show ?thesis
      by (simp add: handleSignAllTransactions_run [OF c] dropValue_def
            split: sum.splits prod.splits)
  next
    case SignMessageText
    then show ?thesis
      by (simp add: handleSignMessage_run [OF c] dropValue_def
            split: sum.splits prod.splits)
  next
    case SignInOk
    then show ?thesis using assms(1)
      by (auto simp: handleSignIn_run [OF c] dropValue_def
            split: sum.splits prod.splits)
  next
    case SignInError
    then show ?thesis using assms(2)
      by (auto simp: handleSignInError_run [OF c] dropValue_def
            split: sum.splits prod.splits)
  next
    case DisconnectWallet
    then show ?thesis
      by (simp add: handleDisconnect_run [OF c] dropValue_def
            split: sum.splits prod.splits)
  next
    case ConnectWallet
    then show ?thesis
      by (simp add: handleConnect_run [OF c] dropValue_def
            split: sum.splits prod.splits)
  qed
qed

text \<open>
  C2 fails on the code.  \<open>handleSignIn\<close> and \<open>handleSignInError\<close> create the sign-in data
  before their \<open>try\<close> block: when \<open>createSignInData\<close> (or \<open>createSignInErrorData\<close>) throws,
  the handler's promise is rejected with that error and nothing is logged.
\<close>

theorem signIn_data_error_escapes:
  "handleSignIn (connectedWorld\<lparr>createSignInData := Inl ''boom''\<rparr>)
     = (Inl ''boom'', [Called CreateSignInData, Rejected ''boom''])
   \<and> entries (snd (handleSignIn (connectedWorld\<lparr>createSignInData := Inl ''boom''\<rparr>))) = []
   \<and> handleSignInError (connectedWorld\<lparr>createSignInErrorData := Inl ''boom''\<rparr>)
     = (Inl ''boom'', [Called CreateSignInErrorData, Rejected ''boom''])"
  by (simp add: handler_defs run_simps notConnected_def connectedWorld_def)

section \<open>The method field of the entries\<close>

text \<open>Every use case but the sign-in-error one logs under the name of its own handler.\<close>

lemma entries_carry_method_name:
  assumes "uc \<noteq> SignInError"
  shows "\<forall>l \<in> set (entries (snd (onClick uc w))). method l = methodName uc"
proof (cases "notConnected w")
  case True
  then show ?thesis by (cases uc) (simp_all add: handler_defs run_simps)
next
  case False
  then obtain pk wl where c: "publicKey w = Some pk" "wallet w = Some wl"
    by (rule connectedE)
  show ?thesis
  proof (cases uc)
    case SignAndSendTransactionLegacy
    then show ?thesis
      by (simp add: handleSignAndSendTransaction_run [OF c] dropValue_def
            split: sum.splits prod.splits)
  next
    case SignAndSendTransactionV0
    then show ?thesis
      by (simp add: handleSignAndSendTransactionV0_run [OF c] dropValue_def
            split: sum.splits prod.splits)
  next
    case SignAndSendTransactionV0LookupTable
    then show ?thesis
      by (simp add: handleSignAndSendTransactionV0WithLookupTable_run [OF c] dropValue_def
            split: sum.splits prod.splits)
  next
    case SignTransactionOnly
    then show ?thesis
      by (simp add: handleSignTransaction_run [OF c] dropValue_def
            split: sum.splits prod.splits)
  next
    case SignAllTransactionsBatch
    then show ?thesis
      by (simp add: handleSignAllTransactions_run [OF c] dropValue_def
            split: sum.splits prod.splits)
  next
    case SignMessageText
    then show ?thesis
      by (simp add: handleSignMessage_run [OF c] dropValue_def
            split: sum.splits prod.splits)
  next
    case SignInOk
    then show ?thesis
      by (simp add: handleSignIn_run [OF c] dropValue_def
            split: sum.splits prod.splits)
  next
    case SignInError
    then show ?thesis using assms by simp
  next
    case DisconnectWallet
    then show ?thesis
      by (simp add: handleDisconnect_run [OF c] dropValue_def
            split: sum.splits prod.splits)
  next
    case ConnectWallet
    then show ?thesis
      by (simp add: handleConnect_run [OF c] dropValue_def
            split: sum.splits prod.splits)
  qed
qed

text \<open>
  C5 fails on the code.  \<open>handleSignInError\<close> logs its success entry under the method
  \<open>signMessage\<close> and its error entry under \<open>signIn\<close>: two different names for one use
  case, neither of them the name of the sign-in-error use case.
\<close>

theorem signInError_method_names:
  "map method (entries (snd (handleSignInError connectedWorld))) = [''signMessage'']
   \<and> map method (entries (snd (handleSignInError
         (connectedWorld\<lparr>signIn := \<lambda>i. Inl ''User rejected the request.''\<rparr>)))) = [''signIn'']"
  by (simp add: handler_defs run_simps notConnected_def connectedWorld_def)

end
